theory Spec2Isabelle
  imports Main "HOL-Library.Word" "HOL-Library.Sublist"
begin

section \<open>Kernel Monitor: the proc file provider and its user-space client\<close>

text \<open>
  Two C sources are embedded here. \<^verbatim>\<open>kernel_monitor.c\<close> is a kernel module whose
  \<^verbatim>\<open>proc_show\<close> callback renders CPU, memory and per-process figures into a seq_file;
  \<^verbatim>\<open>monitor_app.c\<close> is the client that opens \<^verbatim>\<open>/proc/kernel_monitor\<close>, reads it once
  into a fixed buffer and prints it, raw or decorated, once or in an endless watch loop.

  Conventions of the embedding:
  \<^item> \<^verbatim>\<open>u64\<close> and \<^verbatim>\<open>unsigned long\<close> (LP64 kernel) are \<open>64 word\<close>, \<^verbatim>\<open>pid_t\<close> and
    \<^verbatim>\<open>atomic_t\<close> are \<open>32 word\<close>; arithmetic wraps as in C;
  \<^item> a C string is a \<open>string\<close> (bytes); the seq_file is the text accumulated so far;
  \<^item> kernel memory holding \<^verbatim>\<open>mm_struct\<close> objects is a store from addresses to
    records, since several tasks may point to one \<^verbatim>\<open>mm_struct\<close>;
  \<^item> what the client does to the outside world is a list of events, in program order.
\<close>

subsection \<open>printf conversions\<close>

type_synonym u64 = "64 word"
type_synonym s32 = "32 word"

definition digit_char :: "nat \<Rightarrow> char" where
  "digit_char d = ''0123456789'' ! d"

text \<open>Decimal digits of a natural number, most significant first (\<^verbatim>\<open>%lu\<close>, \<^verbatim>\<open>%llu\<close>).\<close>

function dec_nat :: "nat \<Rightarrow> string" where
  "dec_nat n = (if n < 10 then [digit_char n] else dec_nat (n div 10) @ [digit_char (n mod 10)])"
  by pat_completeness auto
termination
  by (relation "measure (\<lambda>n. n)") auto

declare dec_nat.simps [simp del]

text \<open>\<^verbatim>\<open>%d\<close>: a minus sign for negative values.\<close>

definition dec_int :: "int \<Rightarrow> string" where
  "dec_int i = (if i < 0 then CHR ''-'' # dec_nat (nat (- i)) else dec_nat (nat i))"

definition fmt_lu :: "u64 \<Rightarrow> string" where
  "fmt_lu w = dec_nat (unat w)"

definition fmt_d :: "s32 \<Rightarrow> string" where
  "fmt_d w = dec_int (sint w)"

text \<open>
  The \<^verbatim>\<open>-\<close> flag with a minimum field width: the text is followed by spaces up to
  the width, and is never cut when it is longer.
\<close>

definition ljust :: "nat \<Rightarrow> string \<Rightarrow> string" where
  "ljust w s = s @ replicate (w - length s) CHR '' ''"

subsection \<open>The platform as \<^verbatim>\<open>proc_show\<close> sees it\<close>

record mm_struct =
  total_vm :: u64
  mm_users :: s32

record task_struct =
  comm :: string
  pid :: s32
  mm :: "nat option"

record sysinfo =
  totalram :: u64
  freeram :: u64
  sharedram :: u64
  bufferram :: u64

record kernel_cpustat =
  cputime_user :: u64
  cputime_system :: u64
  cputime_idle :: u64

text \<open>
  \<open>tasks\<close> is what \<^verbatim>\<open>for_each_process\<close> enumerates, in its order; \<open>mm t\<close> is the
  address that \<^verbatim>\<open>get_task_mm\<close> finds for task \<open>t\<close>, \<open>None\<close> for \<^verbatim>\<open>NULL\<close>.
\<close>

record platform =
  kcpustat_cpu0 :: kernel_cpustat
  si_meminfo :: sysinfo
  tasks :: "task_struct list"
  memory :: "nat \<Rightarrow> mm_struct"

datatype kevent = MmGet nat | MmRead nat | MmPut nat

record kstate =
  seq :: string
  mem :: "nat \<Rightarrow> mm_struct"
  klog :: "kevent list"

definition MODULE_VERSION :: string where
  "MODULE_VERSION = ''1.0.0''"

definition seq_printf :: "string \<Rightarrow> kstate \<Rightarrow> kstate" where
  "seq_printf txt s = s\<lparr>seq := seq s @ txt\<rparr>"

text \<open>
  The two kernel services around the page count. \<^verbatim>\<open>get_task_mm\<close> returns
  \<^verbatim>\<open>NULL\<close> for a task without a user address space and otherwise takes one reference
  (\<^verbatim>\<open>mm_users\<close> goes up by one); \<^verbatim>\<open>mmput\<close> gives one reference back.
\<close>

definition get_task_mm :: "task_struct \<Rightarrow> kstate \<Rightarrow> nat option \<times> kstate" where
  "get_task_mm task s =
     (case mm task of
        None \<Rightarrow> (None, s)
      | Some a \<Rightarrow>
          (Some a, s\<lparr>mem := (mem s)(a := (mem s a)\<lparr>mm_users := mm_users (mem s a) + 1\<rparr>),
                      klog := klog s @ [MmGet a]\<rparr>))"

definition mmput :: "nat \<Rightarrow> kstate \<Rightarrow> kstate" where
  "mmput a s =
     s\<lparr>mem := (mem s)(a := (mem s a)\<lparr>mm_users := mm_users (mem s a) - 1\<rparr>),
       klog := klog s @ [MmPut a]\<rparr>"

definition read_total_vm :: "nat \<Rightarrow> kstate \<Rightarrow> u64 \<times> kstate" where
  "read_total_vm a s = (total_vm (mem s a), s\<lparr>klog := klog s @ [MmRead a]\<rparr>)"

subsection \<open>\<^verbatim>\<open>proc_show\<close>\<close>

definition show_header :: "kstate \<Rightarrow> kstate" where
  "show_header s =
     (let s = seq_printf ''===========================================\<newline>'' s;
          s = seq_printf (''     Linux Kernel Monitor v'' @ MODULE_VERSION @ ''\<newline>'') s;
          s = seq_printf ''===========================================\<newline>\<newline>'' s
      in s)"

definition show_cpu :: "kernel_cpustat \<Rightarrow> kstate \<Rightarrow> kstate" where
  "show_cpu c s =
     (let user_time = cputime_user c;
          system_time = cputime_system c;
          idle_time = cputime_idle c;
          s = seq_printf ''CPU Statistics (CPU 0):\<newline>'' s;
          s = seq_printf (''  User Time:   '' @ fmt_lu user_time @ '' ns\<newline>'') s;
          s = seq_printf (''  System Time: '' @ fmt_lu system_time @ '' ns\<newline>'') s;
          s = seq_printf (''  Idle Time:   '' @ fmt_lu idle_time @ '' ns\<newline>\<newline>'') s
      in s)"

definition show_memory :: "sysinfo \<Rightarrow> kstate \<Rightarrow> kstate" where
  "show_memory mem_info s =
     (let s = seq_printf ''Memory Statistics:\<newline>'' s;
          s = seq_printf (''  Total RAM:   '' @ fmt_lu (totalram mem_info) @ '' pages ('' @
                          fmt_lu ((totalram mem_info * 4) div 1024) @ '' MB)\<newline>'') s;
          s = seq_printf (''  Free RAM:    '' @ fmt_lu (freeram mem_info) @ '' pages ('' @
                          fmt_lu ((freeram mem_info * 4) div 1024) @ '' MB)\<newline>'') s;
          s = seq_printf (''  Shared RAM:  '' @ fmt_lu (sharedram mem_info) @ '' pages\<newline>'') s;
          s = seq_printf (''  Buffer RAM:  '' @ fmt_lu (bufferram mem_info) @ '' pages\<newline>\<newline>'') s
      in s)"

definition show_table_head :: "kstate \<Rightarrow> kstate" where
  "show_table_head s =
     (let s = seq_printf ''Process Information:\<newline>'' s;
          s = seq_printf (ljust 20 ''Name'' @ '' '' @ ljust 8 ''PID'' @ '' '' @
                          ljust 12 ''Memory (KB)'' @ ''\<newline>'') s;
          s = seq_printf ''-------------------------------------------\<newline>'' s
      in s)"

text \<open>The row format \<^verbatim>\<open>"%-20s %-8d %-12lu\n"\<close>.\<close>

definition process_row :: "string \<Rightarrow> s32 \<Rightarrow> u64 \<Rightarrow> string" where
  "process_row name p kb =
     ljust 20 name @ '' '' @ ljust 8 (fmt_d p) @ '' '' @ ljust 12 (fmt_lu kb) @ ''\<newline>''"

text \<open>
  The body of \<^verbatim>\<open>for_each_process\<close>, on the seq_file state and the local counter
  \<^verbatim>\<open>total_processes\<close>.
\<close>

definition visit_task :: "task_struct \<Rightarrow> kstate \<times> u64 \<Rightarrow> kstate \<times> u64" where
  "visit_task task st =
     (case st of (s, total_processes) \<Rightarrow>
        (case get_task_mm task s of
           (None, s) \<Rightarrow> (s, total_processes)
         | (Some a, s) \<Rightarrow>
             (case read_total_vm a s of (vm, s) \<Rightarrow>
                let s = seq_printf (process_row (comm task) (pid task) (vm * 4)) s;
                    s = mmput a s
                in (s, total_processes + 1))))"

fun for_each_process :: "task_struct list \<Rightarrow> kstate \<times> u64 \<Rightarrow> kstate \<times> u64" where
  "for_each_process [] st = st"
| "for_each_process (task # rest) st = for_each_process rest (visit_task task st)"

definition show_footer :: "u64 \<Rightarrow> kstate \<Rightarrow> kstate" where
  "show_footer total_processes s =
     seq_printf (''\<newline>Total Processes: '' @ fmt_lu total_processes @ ''\<newline>'') s"

text \<open>
  \<^verbatim>\<open>proc_show\<close> starts from an empty seq_file and always returns 0; the model returns
  the final state together with the final value of \<^verbatim>\<open>total_processes\<close>.
\<close>

definition proc_show :: "platform \<Rightarrow> kstate \<times> u64" where
  "proc_show p =
     (let s = \<lparr>seq = [], mem = memory p, klog = []\<rparr>;
          s = show_header s;
          s = show_cpu (kcpustat_cpu0 p) s;
          s = show_memory (si_meminfo p) s;
          s = show_table_head s
      in case for_each_process (tasks p) (s, 0) of
           (s, total_processes) \<Rightarrow> (show_footer total_processes s, total_processes))"

text \<open>The text a reader of the proc file receives.\<close>

definition GenerateSnapshot :: "platform \<Rightarrow> string" where
  "GenerateSnapshot p = seq (fst (proc_show p))"

subsection \<open>The client: constants and events\<close>

definition PROC_PATH :: string where
  "PROC_PATH = ''/proc/kernel_monitor''"

definition BUFFER_SIZE :: u64 where
  "BUFFER_SIZE = 4096"

definition APP_VERSION :: string where
  "APP_VERSION = ''1.0.0''"

definition NUL :: char where
  "NUL = CHR 0x00"

definition ESC :: char where
  "ESC = CHR 0x1B"

definition COLOR_RESET :: string where
  "COLOR_RESET = ESC # ''[0m''"

definition COLOR_RED :: string where
  "COLOR_RED = ESC # ''[31m''"

definition COLOR_GREEN :: string where
  "COLOR_GREEN = ESC # ''[32m''"

definition COLOR_BLUE :: string where
  "COLOR_BLUE = ESC # ''[34m''"

definition COLOR_BOLD :: string where
  "COLOR_BOLD = ESC # ''[1m''"

text \<open>
  The box-drawing characters of the banner are three UTF-8 bytes each, \<^verbatim>\<open>E2 95 xx\<close>;
  the last byte selects the glyph.
\<close>

definition box :: "char \<Rightarrow> string" where
  "box b = [CHR 0xE2, CHR 0x95, b]"

definition banner_top :: string where
  "banner_top = box (CHR 0x94) @ concat (replicate 56 (box (CHR 0x90))) @ box (CHR 0x97) @ ''\<newline>''"

definition banner_mid :: string where
  "banner_mid = box (CHR 0x91) @ ''         Linux Kernel Monitor - Live View              '' @
     box (CHR 0x91) @ ''\<newline>''"

definition banner_bottom :: string where
  "banner_bottom = box (CHR 0x9A) @ concat (replicate 56 (box (CHR 0x90))) @ box (CHR 0x9D) @ ''\<newline>''"

text \<open>
  What the process does to the outside world, in program order. \<open>Read n\<close> is one
  \<^verbatim>\<open>read\<close> call asking for at most \<open>n\<close> bytes; \<open>Sleep n\<close> is \<^verbatim>\<open>sleep(n)\<close>.
\<close>

datatype event = Stdout string | Stderr string | Open string | Read nat | Close | Sleep nat

fun stdout_of :: "event list \<Rightarrow> string" where
  "stdout_of [] = []"
| "stdout_of (Stdout s # es) = s @ stdout_of es"
| "stdout_of (e # es) = stdout_of es"

fun stderr_of :: "event list \<Rightarrow> string" where
  "stderr_of [] = []"
| "stderr_of (Stderr s # es) = s @ stderr_of es"
| "stderr_of (e # es) = stderr_of es"

fun is_Open :: "event \<Rightarrow> bool" where
  "is_Open (Open path) = True"
| "is_Open e = False"

fun is_Read :: "event \<Rightarrow> bool" where
  "is_Read (Read n) = True"
| "is_Read e = False"

text \<open>
  The proc file at the moment of one fetch: \<^verbatim>\<open>open\<close> fails, or \<^verbatim>\<open>read\<close> fails (each with
  the text \<^verbatim>\<open>strerror(errno)\<close> gives), or the file serves the provider's text. A seq_file
  hands a reader as many bytes of its text as the reader asks for. \<open>stack\<close> is what the
  uninitialised local array of \<^verbatim>\<open>display_data\<close> happens to hold.
\<close>

datatype proc_file = OpenFails string | ReadFails string | Content string

record world =
  proc_file :: proc_file
  stack :: "nat \<Rightarrow> char"

text \<open>How a \<^verbatim>\<open>void\<close> function ends: it returns, or the process dies on a memory fault.\<close>

datatype status = Returned | Crashed

text \<open>
  How \<^verbatim>\<open>main\<close> ends: with an exit code, with a memory fault, or not at all (\<open>Running\<close>: the
  watch loop has used up the iterations the model was given and is still looping).
\<close>

datatype outcome = Exit int | Crash | Running

definition EXIT_SUCCESS :: int where
  "EXIT_SUCCESS = 0"

definition EXIT_FAILURE :: int where
  "EXIT_FAILURE = 1"

subsection \<open>\<^verbatim>\<open>print_usage\<close>, \<^verbatim>\<open>print_version\<close>\<close>

definition print_usage :: "string \<Rightarrow> event list" where
  "print_usage prog_name =
     [Stdout (''Usage: '' @ prog_name @ '' [OPTIONS]\<newline>''),
      Stdout ''Read and display Linux kernel monitoring data\<newline>\<newline>'',
      Stdout ''Options:\<newline>'',
      Stdout ''  -h, --help       Display this help message\<newline>'',
      Stdout ''  -v, --version    Display version information\<newline>'',
      Stdout ''  -r, --raw        Display raw output without formatting\<newline>'',
      Stdout ''  -w, --watch SEC  Continuously display data every SEC seconds\<newline>'',
      Stdout ''\<newline>Examples:\<newline>'',
      Stdout (''  '' @ prog_name @ ''              Display current system statistics\<newline>''),
      Stdout (''  '' @ prog_name @ '' -w 2         Update display every 2 seconds\<newline>'')]"

definition print_version :: "event list" where
  "print_version =
     [Stdout (''Kernel Monitor Application v'' @ APP_VERSION @ ''\<newline>''),
      Stdout ''Copyright (C) 2025 Mahmoud Ezzat\<newline>'']"

subsection \<open>\<^verbatim>\<open>read_kernel_data\<close>\<close>

text \<open>
  The result is the buffer after the call and the value returned, or \<open>None\<close> when a
  store would land outside the buffer (undefined behaviour in C). \<open>bufsize\<close> is the
  parameter \<^verbatim>\<open>size\<close>, and \<^verbatim>\<open>size - 1\<close> is computed in \<^verbatim>\<open>size_t\<close>.
\<close>

definition read_kernel_data :: "proc_file \<Rightarrow> string \<Rightarrow> u64 \<Rightarrow> (string \<times> int) option \<times> event list" where
  "read_kernel_data f buffer bufsize =
     (case f of
        OpenFails err \<Rightarrow>
          (Some (buffer, - 1),
           [Open PROC_PATH,
            Stderr (COLOR_RED @ ''Error: Failed to open '' @ PROC_PATH @ '': '' @ err @
                    ''\<newline>'' @ COLOR_RESET),
            Stderr ''Make sure the kernel module is loaded (insmod kernel_monitor.ko)\<newline>''])
      | ReadFails err \<Rightarrow>
          (Some (buffer, - 1),
           [Open PROC_PATH, Read (unat (bufsize - 1)),
            Stderr (COLOR_RED @ ''Error: Failed to read from '' @ PROC_PATH @ '': '' @ err @
                    ''\<newline>'' @ COLOR_RESET),
            Close])
      | Content text \<Rightarrow>
          (let data = take (unat (bufsize - 1)) text;
               bytes_read = length data
           in if length buffer \<le> bytes_read
              then (None, [Open PROC_PATH, Read (unat (bufsize - 1))])
              else (Some ((data @ drop bytes_read buffer)[bytes_read := NUL], int bytes_read),
                    [Open PROC_PATH, Read (unat (bufsize - 1)), Close])))"

text \<open>
  \<^verbatim>\<open>printf("%s", buffer)\<close> prints the bytes before the first NUL; without a NUL inside
  the array it would run past its end.
\<close>

definition c_str :: "string \<Rightarrow> string option" where
  "c_str buffer = (if NUL \<in> set buffer then Some (takeWhile (\<lambda>c. c \<noteq> NUL) buffer) else None)"

subsection \<open>\<^verbatim>\<open>display_data\<close>\<close>

definition display_data :: "world \<Rightarrow> int \<Rightarrow> event list \<times> status" where
  "display_data w raw =
     (let buffer = map (stack w) [0..<unat BUFFER_SIZE] in
      case read_kernel_data (proc_file w) buffer BUFFER_SIZE of
        (None, evs) \<Rightarrow> (evs, Crashed)
      | (Some (buffer, bytes_read), evs) \<Rightarrow>
          if bytes_read < 0 then (evs, Returned)
          else
            (case c_str buffer of
               None \<Rightarrow> (evs, Crashed)
             | Some txt \<Rightarrow>
                 if raw \<noteq> 0 then (evs @ [Stdout txt], Returned)
                 else
                   (evs @
                    [Stdout (ESC # ''[2J'' @ ESC # ''[H''),
                     Stdout (COLOR_BOLD @ COLOR_BLUE),
                     Stdout banner_top,
                     Stdout banner_mid,
                     Stdout banner_bottom,
                     Stdout COLOR_RESET,
                     Stdout (''\<newline>'' @ txt @ ''\<newline>'')], Returned)))"

subsection \<open>\<^verbatim>\<open>watch_mode\<close>\<close>

text \<open>
  The loop \<^verbatim>\<open>while (1)\<close> has no exit. The model runs it for a given number of
  iterations; iteration \<open>k\<close> meets the world \<open>w k\<close>. \<^verbatim>\<open>sleep\<close> takes an
  \<^verbatim>\<open>unsigned int\<close>, to which the \<^verbatim>\<open>int\<close> interval converts.
\<close>

fun watch_loop :: "nat \<Rightarrow> (nat \<Rightarrow> world) \<Rightarrow> nat \<Rightarrow> s32 \<Rightarrow> event list \<times> outcome" where
  "watch_loop 0 w k interval = ([], Running)"
| "watch_loop (Suc fuel) w k interval =
     (case display_data (w k) 0 of
        (evs, Crashed) \<Rightarrow> (evs, Crash)
      | (evs, Returned) \<Rightarrow>
          (case watch_loop fuel w (Suc k) interval of
             (later, r) \<Rightarrow> (evs @ [Sleep (unat interval)] @ later, r)))"

definition watch_banner :: "s32 \<Rightarrow> event list" where
  "watch_banner interval =
     [Stdout (COLOR_GREEN @ ''Starting watch mode (updating every '' @ fmt_d interval @
              '' seconds)...\<newline>''),
      Stdout (''Press Ctrl+C to exit\<newline>'' @ COLOR_RESET),
      Sleep 2]"

definition watch_mode :: "nat \<Rightarrow> (nat \<Rightarrow> world) \<Rightarrow> s32 \<Rightarrow> event list \<times> outcome" where
  "watch_mode fuel w interval =
     (case watch_loop fuel w 0 interval of (evs, r) \<Rightarrow> (watch_banner interval @ evs, r))"

subsection \<open>Library functions used by \<^verbatim>\<open>main\<close>\<close>

text \<open>
  \<^verbatim>\<open>atoi\<close> as the C library has it: leading white space, an optional sign, then the
  longest run of digits (none gives 0); the value saturates at the range of \<^verbatim>\<open>long\<close>
  and is then cut to \<^verbatim>\<open>int\<close>.
\<close>

definition isspace :: "char \<Rightarrow> bool" where
  "isspace c = (c \<in> set [CHR '' '', CHR 0x09, CHR 0x0A, CHR 0x0B, CHR 0x0C, CHR 0x0D])"

definition isdigit :: "char \<Rightarrow> bool" where
  "isdigit c = (48 \<le> (of_char c :: nat) \<and> (of_char c :: nat) \<le> 57)"

fun digits_val :: "nat \<Rightarrow> string \<Rightarrow> nat" where
  "digits_val acc [] = acc"
| "digits_val acc (c # cs) =
     (if isdigit c then digits_val (acc * 10 + (of_char c - 48)) cs else acc)"

definition strtol :: "string \<Rightarrow> int" where
  "strtol s =
     (case dropWhile isspace s of
        [] \<Rightarrow> 0
      | c # r \<Rightarrow>
          if c = CHR ''-'' then max (- (2 ^ 63)) (- int (digits_val 0 r))
          else if c = CHR ''+'' then min (2 ^ 63 - 1) (int (digits_val 0 r))
          else min (2 ^ 63 - 1) (int (digits_val 0 (c # r))))"

definition atoi :: "string \<Rightarrow> s32" where
  "atoi s = word_of_int (strtol s)"

text \<open>
  \<^verbatim>\<open>getopt_long\<close> with the option string \<^verbatim>\<open>"hvrw:"\<close> and the table \<^verbatim>\<open>long_options\<close>, as
  the GNU C library has it. A call either returns an option character with \<^verbatim>\<open>optarg\<close>, or
  writes one line to the error stream (\<^verbatim>\<open>opterr\<close> is left at 1) and returns \<^verbatim>\<open>?\<close>. The
  sequence of its results depends on the arguments only, so the model lists them; the end
  of the list is the result \<open>-1\<close>. The second argument of \<open>getopt_seq\<close> is the rest of a
  cluster of short options being scanned. Arguments that are not options are passed over,
  \<^verbatim>\<open>--\<close> ends the options, a long option may be abbreviated as far as it stays unambiguous
  and may carry its argument after \<^verbatim>\<open>=\<close>.
\<close>

datatype getopt_result = Opt char string | Err string

definition quoted :: "string \<Rightarrow> string" where
  "quoted s = CHR 0x27 # s @ [CHR 0x27]"

definition long_options :: "(string \<times> bool \<times> char) list" where
  "long_options =
     [(''help'', False, CHR ''h''),
      (''version'', False, CHR ''v''),
      (''raw'', False, CHR ''r''),
      (''watch'', True, CHR ''w'')]"

datatype long_match = Found string bool char | Unknown | Ambiguous "string list"

definition find_long :: "string \<Rightarrow> long_match" where
  "find_long name =
     (case filter (\<lambda>(n, _). n = name) long_options of
        (n, takes_arg, c) # _ \<Rightarrow> Found n takes_arg c
      | [] \<Rightarrow>
          (case filter (\<lambda>(n, _). take (length name) n = name) long_options of
             [] \<Rightarrow> Unknown
           | [(n, takes_arg, c)] \<Rightarrow> Found n takes_arg c
           | xs \<Rightarrow> Ambiguous (map fst xs)))"

fun getopt_seq :: "string \<Rightarrow> string \<Rightarrow> string list \<Rightarrow> getopt_result list" where
  "getopt_seq prog (c # cs) rest =
     (if c = CHR ''h'' \<or> c = CHR ''v'' \<or> c = CHR ''r'' then Opt c [] # getopt_seq prog cs rest
      else if c = CHR ''w'' then
        (if cs \<noteq> [] then Opt c cs # getopt_seq prog [] rest
         else (case rest of
                 [] \<Rightarrow> [Err (prog @ '': option requires an argument -- '' @ quoted [c] @
                            ''\<newline>'')]
               | a # rest' \<Rightarrow> Opt c a # getopt_seq prog [] rest'))
      else Err (prog @ '': invalid option -- '' @ quoted [c] @ ''\<newline>'') #
           getopt_seq prog cs rest)"
| "getopt_seq prog [] [] = []"
| "getopt_seq prog [] (a # rest) =
     (if a = ''--'' then []
      else if take 2 a = ''--'' then
        (let body = drop 2 a;
             name = takeWhile (\<lambda>c. c \<noteq> CHR ''='') body;
             has_eq = (CHR ''='' \<in> set body);
             val = drop (Suc (length name)) body
         in case find_long name of
              Unknown \<Rightarrow>
                Err (prog @ '': unrecognized option '' @ quoted (''--'' @ body) @ ''\<newline>'') #
                getopt_seq prog [] rest
            | Ambiguous names \<Rightarrow>
                Err (prog @ '': option '' @ quoted (''--'' @ body) @
                     '' is ambiguous; possibilities:'' @
                     concat (map (\<lambda>n. '' '' @ quoted (''--'' @ n)) names) @ ''\<newline>'') #
                getopt_seq prog [] rest
            | Found n takes_arg c \<Rightarrow>
                if takes_arg then
                  (if has_eq then Opt c val # getopt_seq prog [] rest
                   else (case rest of
                           [] \<Rightarrow> [Err (prog @ '': option '' @ quoted (''--'' @ n) @
                                      '' requires an argument\<newline>'')]
                         | b # rest' \<Rightarrow> Opt c b # getopt_seq prog [] rest'))
                else if has_eq then
                  Err (prog @ '': option '' @ quoted (''--'' @ n) @ '' doesn'' @ [CHR 0x27] @
                       ''t allow an argument\<newline>'') #
                  getopt_seq prog [] rest
                else Opt c [] # getopt_seq prog [] rest)
      else if take 1 a = ''-'' \<and> 2 \<le> length a then getopt_seq prog (drop 1 a) rest
      else getopt_seq prog [] rest)"

subsection \<open>\<^verbatim>\<open>main\<close>\<close>

text \<open>
  The option loop ends either by returning from \<^verbatim>\<open>main\<close> (\<open>Inl\<close>: what was printed and
  the exit code) or by running out of options (\<open>Inr\<close>: the final \<^verbatim>\<open>raw_mode\<close> and
  \<^verbatim>\<open>watch_interval\<close>). The result \<^verbatim>\<open>?\<close> falls to the \<^verbatim>\<open>default\<close> label of the switch, after
  the line \<^verbatim>\<open>getopt_long\<close> wrote.
\<close>

fun option_loop :: "string \<Rightarrow> getopt_result list \<Rightarrow> int \<Rightarrow> s32 \<Rightarrow> (event list \<times> int) + (int \<times> s32)" where
  "option_loop prog [] raw_mode watch_interval = Inr (raw_mode, watch_interval)"
| "option_loop prog (Err msg # pending) raw_mode watch_interval =
     Inl (Stderr msg # print_usage prog, EXIT_FAILURE)"
| "option_loop prog (Opt opt optarg # pending) raw_mode watch_interval =
     (if opt = CHR ''h'' then Inl (print_usage prog, EXIT_SUCCESS)
      else if opt = CHR ''v'' then Inl (print_version, EXIT_SUCCESS)
      else if opt = CHR ''r'' then option_loop prog pending 1 watch_interval
      else if opt = CHR ''w'' then
        (let watch_interval = atoi optarg
         in if sint watch_interval \<le> 0
            then Inl ([Stderr ''Error: Invalid watch interval\<newline>''], EXIT_FAILURE)
            else option_loop prog pending raw_mode watch_interval)
      else Inl (print_usage prog, EXIT_FAILURE))"

text \<open>
  \<open>prog\<close> is \<^verbatim>\<open>argv[0]\<close>, \<open>args\<close> the arguments after it; \<open>fuel\<close> bounds the
  iterations of the watch loop that are followed.
\<close>

definition main :: "nat \<Rightarrow> (nat \<Rightarrow> world) \<Rightarrow> string \<Rightarrow> string list \<Rightarrow> event list \<times> outcome" where
  "main fuel w prog args =
     (case option_loop prog (getopt_seq prog [] args) 0 0 of
        Inl (evs, code) \<Rightarrow> (evs, Exit code)
      | Inr (raw_mode, watch_interval) \<Rightarrow>
          if 0 < sint watch_interval then watch_mode fuel w watch_interval
          else
            (case display_data (w 0) raw_mode of
               (evs, Crashed) \<Rightarrow> (evs, Crash)
             | (evs, Returned) \<Rightarrow> (evs, Exit EXIT_SUCCESS)))"

subsection \<open>Views used to state the provider's properties\<close>

text \<open>
  The tasks for which \<^verbatim>\<open>get_task_mm\<close> finds an address space, each with its address,
  in enumeration order: the \<open>processes\<close> sequence of the data model.
\<close>

definition visited_mm :: "task_struct list \<Rightarrow> (task_struct \<times> nat) list" where
  "visited_mm ts = List.map_filter (\<lambda>t. map_option (Pair t) (mm t)) ts"

definition table_rows :: "platform \<Rightarrow> string list" where
  "table_rows p =
     map (\<lambda>(t, a). process_row (comm t) (pid t) (total_vm (memory p a) * 4))
       (visited_mm (tasks p))"

text \<open>Everything \<^verbatim>\<open>proc_show\<close> prints before the first process row.\<close>

definition preamble :: "platform \<Rightarrow> string" where
  "preamble p =
     seq (show_table_head (show_memory (si_meminfo p) (show_cpu (kcpustat_cpu0 p)
       (show_header \<lparr>seq = [], mem = memory p, klog = []\<rparr>))))"

text \<open>The reference-count events one task contributes to a pass of the loop.\<close>

definition mm_events :: "task_struct \<Rightarrow> kevent list" where
  "mm_events t = (case mm t of None \<Rightarrow> [] | Some a \<Rightarrow> [MmGet a, MmRead a, MmPut a])"

text \<open>
  The discipline of the reference count, as a check on a log: it is a sequence of triples,
  each an acquisition directly followed by the read of that address space's page count and
  by its release. No reference is held from one triple to the next, and none at the end.
\<close>

fun paired :: "kevent list \<Rightarrow> bool" where
  "paired [] = True"
| "paired (MmGet a # MmRead b # MmPut c # rest) = (a = b \<and> b = c \<and> paired rest)"
| "paired es = False"

text \<open>A process row, from the number of kilobytes it shows.\<close>

definition kb_row :: "string \<Rightarrow> s32 \<Rightarrow> nat \<Rightarrow> string" where
  "kb_row name p kb =
     ljust 20 name @ '' '' @ ljust 8 (fmt_d p) @ '' '' @ ljust 12 (dec_nat kb) @ ''\<newline>''"

text \<open>A line of the memory block, from the page count and the megabytes shown.\<close>

definition ram_line :: "string \<Rightarrow> nat \<Rightarrow> nat \<Rightarrow> string" where
  "ram_line label pages mb =
     label @ dec_nat pages @ '' pages ('' @ dec_nat mb @ '' MB)\<newline>''"

text \<open>
  The platform of the worked example: the CPU and memory figures of the example, and one
  process \<^verbatim>\<open>bashd\<close> with pid 1234 whose address space at address 7 has 2048 pages.
\<close>

definition bashd_task :: task_struct where
  "bashd_task = \<lparr>comm = ''bashd'', pid = 1234, mm = Some 7\<rparr>"

definition kthread_task :: task_struct where
  "kthread_task = \<lparr>comm = ''kthreadd'', pid = 2, mm = None\<rparr>"

definition example_platform :: "task_struct list \<Rightarrow> platform" where
  "example_platform ts =
     \<lparr>kcpustat_cpu0 = \<lparr>cputime_user = 1000000000, cputime_system = 500000000,
                        cputime_idle = 8500000000\<rparr>,
      si_meminfo = \<lparr>totalram = 1048576, freeram = 262144, sharedram = 1024, bufferram = 2048\<rparr>,
      tasks = ts,
      memory = (\<lambda>a. \<lparr>total_vm = 2048, mm_users = 1\<rparr>)\<rparr>"

subsection \<open>Views used to state the client's properties\<close>

text \<open>
  What \<^verbatim>\<open>printf("%s", buffer)\<close> shows after a fetch of \<open>text\<close>: the bytes the single
  \<^verbatim>\<open>read\<close> delivered, up to the first NUL among them.
\<close>

definition fetched :: "string \<Rightarrow> string" where
  "fetched text = takeWhile (\<lambda>c. c \<noteq> NUL) (take 4095 text)"

text \<open>What the decorated display prints before the text.\<close>

definition decoration :: "event list" where
  "decoration =
     [Stdout (ESC # ''[2J'' @ ESC # ''[H''), Stdout (COLOR_BOLD @ COLOR_BLUE),
      Stdout banner_top, Stdout banner_mid, Stdout banner_bottom, Stdout COLOR_RESET]"

text \<open>
  Worlds of the worked examples: the module is not loaded, so that \<^verbatim>\<open>open\<close> fails; or the
  proc file serves a given text. The platform \<open>busy_platform\<close> runs a hundred processes.
\<close>

definition absent_world :: world where
  "absent_world = \<lparr>proc_file = OpenFails ''No such file or directory'', stack = (\<lambda>i. CHR ''x'')\<rparr>"

definition serving :: "string \<Rightarrow> world" where
  "serving text = \<lparr>proc_file = Content text, stack = (\<lambda>i. CHR ''x'')\<rparr>"

definition busy_platform :: platform where
  "busy_platform = example_platform (replicate 100 bashd_task)"

section \<open>Properties of the provider\<close>

subsection \<open>Evaluating the conversions\<close>

lemma replicate_numeral: "replicate (numeral k) x = x # replicate (pred_numeral k) x"
  by (simp add: numeral_eq_Suc)

lemma dec_nat_numeral: "dec_nat (numeral k) = (if numeral k < (10::nat) then [digit_char (numeral k)] else dec_nat (numeral k div 10) @ [digit_char (numeral k mod 10)])"
  by (rule dec_nat.simps)
lemma dec_nat_0: "dec_nat 0 = ''0''" by (simp add: dec_nat.simps digit_char_def)
lemma dec_nat_1: "dec_nat (Suc 0) = ''1''" by (simp add: dec_nat.simps digit_char_def)
lemmas render = dec_nat_numeral dec_nat_0 dec_nat_1 digit_char_def replicate_numeral ljust_def fmt_lu_def fmt_d_def dec_int_def process_row_def

lemma visited_mm_Nil: "visited_mm [] = []" by (simp add: visited_mm_def map_filter_simps)
lemma visited_mm_Cons: "visited_mm (t # ts) = (case mm t of None \<Rightarrow> visited_mm ts | Some a \<Rightarrow> (t, a) # visited_mm ts)"
  by (simp add: visited_mm_def map_filter_simps split: option.splits)
lemma length_visited_mm: "length (visited_mm ts) \<le> length ts"
  by (induction ts) (simp_all add: visited_mm_Nil visited_mm_Cons split: option.splits)

lemma visit_task_None: "mm t = None \<Longrightarrow> visit_task t (s, n) = (s, n)"
  by (simp add: visit_task_def get_task_mm_def)

lemma visit_task_Some: "mm t = Some a \<Longrightarrow> visit_task t (s, n) =
   (s\<lparr>seq := seq s @ process_row (comm t) (pid t) (total_vm (mem s a) * 4),
      klog := klog s @ [MmGet a, MmRead a, MmPut a]\<rparr>, n + 1)"
  by (simp add: visit_task_def get_task_mm_def read_total_vm_def seq_printf_def mmput_def Let_def)

lemma for_each_process_result:
  "for_each_process ts (s, n) =
     (s\<lparr>seq := seq s @ concat (map (\<lambda>(t, a). process_row (comm t) (pid t) (total_vm (mem s a) * 4)) (visited_mm ts)),
        klog := klog s @ concat (map mm_events ts)\<rparr>,
      n + of_nat (length (visited_mm ts)))"
proof (induction ts arbitrary: s n)
  case Nil
  show ?case by (simp add: visited_mm_Nil)
next
  case (Cons t ts)
  show ?case
  proof (cases "mm t")
    case None
    then show ?thesis
      by (simp only: for_each_process.simps visit_task_None [OF None] Cons.IH)
        (simp add: visited_mm_Cons mm_events_def None)
  next
    case (Some a)
    then show ?thesis
      by (simp only: for_each_process.simps visit_task_Some [OF Some] Cons.IH)
        (simp add: visited_mm_Cons mm_events_def Some)
  qed
qed

lemma mem_pre: "mem (show_table_head (show_memory mi (show_cpu c (show_header s)))) = mem s"
  and klog_pre: "klog (show_table_head (show_memory mi (show_cpu c (show_header s)))) = klog s"
  by (simp_all add: show_table_head_def show_memory_def show_cpu_def show_header_def seq_printf_def Let_def)

lemma proc_show_result:
  "proc_show p =
    (\<lparr>seq = preamble p @ concat (table_rows p) @ ''\<newline>Total Processes: '' @ fmt_lu (of_nat (length (table_rows p))) @ ''\<newline>'',
      mem = memory p, klog = concat (map mm_events (tasks p))\<rparr>, of_nat (length (table_rows p)))"
  unfolding proc_show_def Let_def for_each_process_result
  by (simp add: show_footer_def seq_printf_def mem_pre klog_pre preamble_def table_rows_def)

lemma GenerateSnapshot_layout:
  "GenerateSnapshot p = preamble p @ concat (table_rows p) @ ''\<newline>Total Processes: '' @ dec_nat (length (table_rows p) mod 2 ^ 64) @ ''\<newline>''"
  by (simp add: GenerateSnapshot_def proc_show_result fmt_lu_def unat_of_nat)

lemma table_rows_example: "table_rows (example_platform [kthread_task, bashd_task]) = [''bashd                1234     8192        \<newline>'']"
  by (simp add: table_rows_def example_platform_def visited_mm_Cons visited_mm_Nil kthread_task_def bashd_task_def render)

lemma visited_example: "visited_mm [kthread_task, bashd_task] = [(bashd_task, 7)]"
  by (simp add: visited_mm_Cons visited_mm_Nil kthread_task_def bashd_task_def)

lemma preamble_example: "preamble (example_platform ts) =
     ''===========================================\<newline>'' @
     ''     Linux Kernel Monitor v1.0.0\<newline>'' @
     ''===========================================\<newline>'' @
     ''\<newline>'' @
     ''CPU Statistics (CPU 0):\<newline>'' @
     ''  User Time:   1000000000 ns\<newline>'' @
     ''  System Time: 500000000 ns\<newline>'' @
     ''  Idle Time:   8500000000 ns\<newline>'' @
     ''\<newline>'' @
     ''Memory Statistics:\<newline>'' @
     ''  Total RAM:   1048576 pages (4096 MB)\<newline>'' @
     ''  Free RAM:    262144 pages (1024 MB)\<newline>'' @
     ''  Shared RAM:  1024 pages\<newline>'' @
     ''  Buffer RAM:  2048 pages\<newline>'' @
     ''\<newline>'' @
     ''Process Information:\<newline>'' @
     ''Name                 PID      Memory (KB) \<newline>'' @
     ''-------------------------------------------\<newline>''"
  by (simp add: preamble_def example_platform_def show_table_head_def show_memory_def show_cpu_def show_header_def seq_printf_def Let_def render MODULE_VERSION_def)

lemma snapshot_pre_mem:
  "GenerateSnapshot p =
     (seq (show_cpu (kcpustat_cpu0 p) (show_header \<lparr>seq = [], mem = memory p, klog = []\<rparr>)) @
     ''Memory Statistics:\<newline>'') @
     (ram_line ''  Total RAM:   '' (unat (totalram (si_meminfo p))) (unat (totalram (si_meminfo p)) * 4 mod 2 ^ 64 div 1024) @
     ram_line ''  Free RAM:    '' (unat (freeram (si_meminfo p))) (unat (freeram (si_meminfo p)) * 4 mod 2 ^ 64 div 1024)) @
     (''  Shared RAM:  '' @ fmt_lu (sharedram (si_meminfo p)) @ '' pages\<newline>'' @
     ''  Buffer RAM:  '' @ fmt_lu (bufferram (si_meminfo p)) @ '' pages\<newline>\<newline>'' @
     ''Process Information:\<newline>'' @
     ljust 20 ''Name'' @ '' '' @ ljust 8 ''PID'' @ '' '' @ ljust 12 ''Memory (KB)'' @ ''\<newline>'' @
     ''-------------------------------------------\<newline>'' @
     concat (table_rows p) @ ''\<newline>Total Processes: '' @ dec_nat (length (table_rows p) mod 2 ^ 64) @ ''\<newline>'')"
  by (simp add: GenerateSnapshot_layout preamble_def show_table_head_def show_memory_def seq_printf_def Let_def
      ram_line_def fmt_lu_def unat_div unat_word_ariths)

lemma sublist_mid: "ys = ps @ xs @ ss \<Longrightarrow> sublist xs ys"
  by (auto simp: sublist_def)

lemma snapshot_bashd:
  "GenerateSnapshot (example_platform [bashd_task]) = preamble (example_platform [bashd_task]) @
      ''bashd                1234     8192        \<newline>'' @ ''\<newline>Total Processes: 1\<newline>''"
  by (simp add: GenerateSnapshot_layout table_rows_def visited_mm_Cons visited_mm_Nil bashd_task_def example_platform_def render)

lemma process_row_kb: "process_row name q (vm * 4) = kb_row name q (unat vm * 4 mod 2 ^ 64)"
  by (simp add: process_row_def kb_row_def fmt_lu_def unat_word_ariths)

lemma table_rows_kb:
  "table_rows p = map (\<lambda>(t, a). kb_row (comm t) (pid t) (unat (total_vm (memory p a)) * 4 mod 2 ^ 64)) (visited_mm (tasks p))"
  by (simp add: table_rows_def process_row_kb)

subsection \<open>The claims about \<^verbatim>\<open>proc_show\<close>\<close>

text \<open>
  C1. The number printed after \<^verbatim>\<open>Total Processes:\<close> is the number of process rows of the
  table. The counter is the local \<^verbatim>\<open>total_processes\<close>, incremented once for every row
  appended, so the footer shows the row count as an \<^verbatim>\<open>unsigned long\<close> holds it; below
  \<open>2 ^ 64\<close> tasks that is the row count itself.
\<close>

theorem footer_count_is_row_count:
  "snd (proc_show p) = of_nat (length (table_rows p)) \<and>
   GenerateSnapshot p = preamble p @ concat (table_rows p) @
     ''\<newline>Total Processes: '' @ dec_nat (length (table_rows p) mod 2 ^ 64) @ ''\<newline>'' \<and>
   (length (tasks p) < 2 ^ 64 \<longrightarrow>
      GenerateSnapshot p = preamble p @ concat (table_rows p) @
        ''\<newline>Total Processes: '' @ dec_nat (length (table_rows p)) @ ''\<newline>'')"
proof -
  have "length (table_rows p) \<le> length (tasks p)"
    by (simp add: table_rows_def length_visited_mm)
  then have "length (tasks p) < 2 ^ 64 \<Longrightarrow> length (table_rows p) mod 2 ^ 64 = length (table_rows p)"
    by simp
  then show ?thesis
    by (simp add: proc_show_result GenerateSnapshot_layout)
qed

theorem footer_count_is_row_count_witness:
  "length (tasks (example_platform [kthread_task, bashd_task])) < 2 ^ 64 \<and>
   GenerateSnapshot (example_platform [kthread_task, bashd_task]) =
     preamble (example_platform [kthread_task, bashd_task]) @
     ''bashd                1234     8192        \<newline>'' @ ''\<newline>Total Processes: 1\<newline>''"
  using footer_count_is_row_count [of "example_platform [kthread_task, bashd_task]"]
  by (simp add: table_rows_example dec_nat_1) (simp add: example_platform_def)

text \<open>
  C2, as the code has it. When the process list of the snapshot (the tasks with an address
  space, whatever other tasks are enumerated) is the single entry
  \<^verbatim>\<open>("bashd", 1234, 8192)\<close>, the snapshot renders exactly the row below, and the footer
  \<^verbatim>\<open>Total Processes: 1\<close> follows it after one empty line.
\<close>

theorem bashd_row_and_footer:
  assumes "visited_mm (tasks p) = [(t, a)]" and "comm t = ''bashd''" and "pid t = 1234"
    and "total_vm (memory p a) * 4 = 8192"
  shows "GenerateSnapshot p =
     preamble p @ ''bashd                1234     8192        \<newline>'' @ ''\<newline>Total Processes: 1\<newline>''"
proof -
  have "table_rows p = [''bashd                1234     8192        \<newline>'']"
    using assms by (simp add: table_rows_def render)
  then show ?thesis
    by (simp add: GenerateSnapshot_layout dec_nat_1)
qed

theorem bashd_row_and_footer_witness:
  "visited_mm (tasks (example_platform [kthread_task, bashd_task, kthread_task])) = [(bashd_task, 7)] \<and>
   GenerateSnapshot (example_platform [kthread_task, bashd_task, kthread_task]) =
     preamble (example_platform [kthread_task, bashd_task, kthread_task]) @
     ''bashd                1234     8192        \<newline>'' @ ''\<newline>Total Processes: 1\<newline>'' \<and>
   GenerateSnapshot (example_platform [bashd_task]) =
     preamble (example_platform [bashd_task]) @
     ''bashd                1234     8192        \<newline>'' @ ''\<newline>Total Processes: 1\<newline>''"
proof -
  have v: "visited_mm (tasks (example_platform [kthread_task, bashd_task, kthread_task])) = [(bashd_task, 7)]"
    by (simp add: example_platform_def visited_mm_Cons visited_mm_Nil kthread_task_def bashd_task_def)
  have v1: "visited_mm (tasks (example_platform [bashd_task])) = [(bashd_task, 7)]"
    by (simp add: example_platform_def visited_mm_Cons visited_mm_Nil bashd_task_def)
  have b: "comm bashd_task = ''bashd''" "pid bashd_task = 1234"
    by (simp_all add: bashd_task_def)
  have m: "total_vm (memory (example_platform ts) 7) * 4 = 8192" for ts
    by (simp add: example_platform_def)
  show ?thesis
    using v bashd_row_and_footer [OF v b m] bashd_row_and_footer [OF v1 b m] by simp
qed

text \<open>
  C2 as stated places the footer on the line right after the last row. The snapshot of the
  example does not contain the row directly followed by the footer.
\<close>

theorem footer_not_adjacent_to_rows:
  "\<not> sublist (''bashd                1234     8192        \<newline>'' @ ''Total Processes: 1'')
       (GenerateSnapshot (example_platform [bashd_task]))"
  unfolding snapshot_bashd preamble_example
  by (simp add: sublist_Cons_right)

text \<open>
  C4. Every row shows, as its kilobytes, the page count \<^verbatim>\<open>total_vm\<close> of the task's address
  space times 4, computed in \<^verbatim>\<open>unsigned long\<close>; for page counts below \<open>2 ^ 62\<close> the
  product does not wrap and the figure is exactly four times the page count.
\<close>

theorem resident_kb_is_four_times_pages:
  "GenerateSnapshot p =
     preamble p @
     concat (map (\<lambda>(t, a). kb_row (comm t) (pid t) (unat (total_vm (memory p a)) * 4 mod 2 ^ 64))
               (visited_mm (tasks p))) @
     ''\<newline>Total Processes: '' @ dec_nat (length (visited_mm (tasks p)) mod 2 ^ 64) @ ''\<newline>'' \<and>
   ((\<forall>(t, a) \<in> set (visited_mm (tasks p)). unat (total_vm (memory p a)) < 2 ^ 62) \<longrightarrow>
    GenerateSnapshot p =
      preamble p @
      concat (map (\<lambda>(t, a). kb_row (comm t) (pid t) (unat (total_vm (memory p a)) * 4))
                (visited_mm (tasks p))) @
      ''\<newline>Total Processes: '' @ dec_nat (length (visited_mm (tasks p)) mod 2 ^ 64) @ ''\<newline>'')"
proof -
  have L: "length (table_rows p) = length (visited_mm (tasks p))"
    by (simp add: table_rows_def)
  have A: "GenerateSnapshot p =
     preamble p @
     concat (map (\<lambda>(t, a). kb_row (comm t) (pid t) (unat (total_vm (memory p a)) * 4 mod 2 ^ 64))
               (visited_mm (tasks p))) @
     ''\<newline>Total Processes: '' @ dec_nat (length (visited_mm (tasks p)) mod 2 ^ 64) @ ''\<newline>''"
    using GenerateSnapshot_layout [of p] unfolding L by (simp add: table_rows_kb)
  have B: "map (\<lambda>(t, a). kb_row (comm t) (pid t) (unat (total_vm (memory p a)) * 4 mod 2 ^ 64)) (visited_mm (tasks p))
         = map (\<lambda>(t, a). kb_row (comm t) (pid t) (unat (total_vm (memory p a)) * 4)) (visited_mm (tasks p))"
    if "\<forall>(t, a) \<in> set (visited_mm (tasks p)). unat (total_vm (memory p a)) < 2 ^ 62"
  proof (rule map_cong [OF refl])
    fix x assume x: "x \<in> set (visited_mm (tasks p))"
    obtain t a where [simp]: "x = (t, a)" by (cases x)
    from that x have "unat (total_vm (memory p a)) < 2 ^ 62" by auto
    then have "unat (total_vm (memory p a)) * 4 mod 2 ^ 64 = unat (total_vm (memory p a)) * 4" by simp
    then show "(case x of (t, a) \<Rightarrow> kb_row (comm t) (pid t) (unat (total_vm (memory p a)) * 4 mod 2 ^ 64))
       = (case x of (t, a) \<Rightarrow> kb_row (comm t) (pid t) (unat (total_vm (memory p a)) * 4))" by simp
  qed
  show ?thesis using A B by presburger
qed

theorem resident_kb_is_four_times_pages_witness:
  "visited_mm (tasks (example_platform [kthread_task, bashd_task])) = [(bashd_task, 7)] \<and>
   unat (total_vm (memory (example_platform [kthread_task, bashd_task]) 7)) < 2 ^ 62 \<and>
   GenerateSnapshot (example_platform [kthread_task, bashd_task]) =
     preamble (example_platform [kthread_task, bashd_task]) @
     kb_row ''bashd'' 1234 (2048 * 4) @ ''\<newline>Total Processes: 1\<newline>''"
  using resident_kb_is_four_times_pages [of "example_platform [kthread_task, bashd_task]"]
  by (simp add: example_platform_def visited_example dec_nat_1) (simp add: bashd_task_def)

text \<open>
  C5. The megabytes shown for total and free RAM are \<open>pages * 4 div 1024\<close>, the product
  taken in \<^verbatim>\<open>unsigned long\<close>; 1048576 total pages are shown as 4096 MB.
\<close>

theorem memory_megabytes:
  "sublist (ram_line ''  Total RAM:   '' (unat (totalram (si_meminfo p)))
              (unat (totalram (si_meminfo p)) * 4 mod 2 ^ 64 div 1024) @
            ram_line ''  Free RAM:    '' (unat (freeram (si_meminfo p)))
              (unat (freeram (si_meminfo p)) * 4 mod 2 ^ 64 div 1024))
     (GenerateSnapshot p) \<and>
   (unat (totalram (si_meminfo p)) < 2 ^ 62 \<longrightarrow> unat (freeram (si_meminfo p)) < 2 ^ 62 \<longrightarrow>
      sublist (ram_line ''  Total RAM:   '' (unat (totalram (si_meminfo p)))
                 (unat (totalram (si_meminfo p)) * 4 div 1024) @
               ram_line ''  Free RAM:    '' (unat (freeram (si_meminfo p)))
                 (unat (freeram (si_meminfo p)) * 4 div 1024))
        (GenerateSnapshot p)) \<and>
   (totalram (si_meminfo p) = 1048576 \<longrightarrow>
      sublist ''  Total RAM:   1048576 pages (4096 MB)\<newline>'' (GenerateSnapshot p))"
proof -
  let ?t = "unat (totalram (si_meminfo p))" and ?f = "unat (freeram (si_meminfo p))"
  have A: "sublist (ram_line ''  Total RAM:   '' ?t (?t * 4 mod 2 ^ 64 div 1024) @
            ram_line ''  Free RAM:    '' ?f (?f * 4 mod 2 ^ 64 div 1024)) (GenerateSnapshot p)"
    by (rule sublist_mid [OF snapshot_pre_mem])
  have small: "n * 4 mod 2 ^ 64 = n * 4" if "n < 2 ^ 62" for n :: nat
    using that by simp
  have B: "sublist (ram_line ''  Total RAM:   '' ?t (?t * 4 div 1024) @
            ram_line ''  Free RAM:    '' ?f (?f * 4 div 1024)) (GenerateSnapshot p)"
    if "?t < 2 ^ 62" "?f < 2 ^ 62"
    using A small [OF that(1)] small [OF that(2)] by simp
  have C: "sublist ''  Total RAM:   1048576 pages (4096 MB)\<newline>'' (GenerateSnapshot p)"
    if "totalram (si_meminfo p) = 1048576"
  proof -
    have "ram_line ''  Total RAM:   '' ?t (?t * 4 mod 2 ^ 64 div 1024) = ''  Total RAM:   1048576 pages (4096 MB)\<newline>''"
      by (simp add: that ram_line_def render)
    then have "sublist ''  Total RAM:   1048576 pages (4096 MB)\<newline>''
        (ram_line ''  Total RAM:   '' ?t (?t * 4 mod 2 ^ 64 div 1024) @
            ram_line ''  Free RAM:    '' ?f (?f * 4 mod 2 ^ 64 div 1024))"
      by (metis sublist_appendI append_Nil)
    then show ?thesis using A sublist_order.order_trans by blast
  qed
  show ?thesis using A B C by blast
qed

theorem memory_megabytes_witness:
  "unat (totalram (si_meminfo (example_platform []))) < 2 ^ 62 \<and>
   unat (freeram (si_meminfo (example_platform []))) < 2 ^ 62 \<and>
   totalram (si_meminfo (example_platform [])) = 1048576 \<and>
   sublist (''  Total RAM:   1048576 pages (4096 MB)\<newline>'' @ ''  Free RAM:    262144 pages (1024 MB)\<newline>'')
     (GenerateSnapshot (example_platform [])) \<and>
   sublist ''  Total RAM:   1048576 pages (4096 MB)\<newline>'' (GenerateSnapshot (example_platform []))"
  using memory_megabytes [of "example_platform []"]
  by (simp add: example_platform_def ram_line_def render)

text \<open>
  C9. Acquisition and release of the address-space reference are paired for every task
  visited: a task without an address space contributes no event at all, a task with one
  contributes exactly one acquisition, the read of the page count and one release, in this
  order; so the whole log is a sequence of such triples, and after the pass every
  \<^verbatim>\<open>mm_users\<close> count is what it was before.
\<close>

theorem mm_reference_paired:
  "klog (fst (proc_show p)) = concat (map mm_events (tasks p)) \<and>
   paired (klog (fst (proc_show p))) \<and>
   mem (fst (proc_show p)) = memory p"
proof -
  have log: "klog (fst (proc_show p)) = concat (map mm_events (tasks p))"
    by (simp add: proc_show_result)
  have "paired (concat (map mm_events ts))" for ts
  proof (induction ts)
    case Nil
    show ?case by simp
  next
    case (Cons t ts)
    then show ?case by (cases "mm t") (simp_all add: mm_events_def)
  qed
  then have "paired (klog (fst (proc_show p)))"
    unfolding log .
  moreover have "mem (fst (proc_show p)) = memory p"
    by (simp add: proc_show_result)
  ultimately show ?thesis
    using log by simp
qed

section \<open>Properties of the client\<close>

subsection \<open>One fetch\<close>

lemma unat_BUFFER_SIZE: "unat BUFFER_SIZE = 4096" "unat (BUFFER_SIZE - 1) = 4095"
  by (simp_all add: BUFFER_SIZE_def)

lemma store_terminator:
  assumes "length data < length buffer"
  shows "(data @ drop (length data) buffer)[length data := NUL] = data @ NUL # drop (Suc (length data)) buffer"
proof -
  from assms have "drop (length data) buffer = buffer ! length data # drop (Suc (length data)) buffer"
    by (simp add: Cons_nth_drop_Suc)
  then show ?thesis by simp
qed

lemma c_str_terminated: "c_str (data @ NUL # rest) = Some (takeWhile (\<lambda>c. c \<noteq> NUL) data)"
proof -
  have "takeWhile (\<lambda>c. c \<noteq> NUL) (data @ NUL # rest) = takeWhile (\<lambda>c. c \<noteq> NUL) data"
    by (rule takeWhile_tail) simp
  then show ?thesis by (simp add: c_str_def)
qed

lemma read_kernel_data_Content:
  assumes "length buffer = 4096"
  shows "read_kernel_data (Content text) buffer BUFFER_SIZE =
     (Some (take 4095 text @ NUL # drop (Suc (length (take 4095 text))) buffer, int (length (take 4095 text))),
      [Open PROC_PATH, Read 4095, Close])"
proof -
  have "length (take 4095 text) < length buffer" using assms by simp
  then show ?thesis
    by (simp add: read_kernel_data_def unat_BUFFER_SIZE Let_def store_terminator del: length_take)
qed

lemma display_data_Content:
  assumes "proc_file w = Content text"
  shows "display_data w raw =
     ([Open PROC_PATH, Read 4095, Close] @
      (if raw \<noteq> 0 then [Stdout (fetched text)]
       else decoration @ [Stdout (''\<newline>'' @ fetched text @ ''\<newline>'')]), Returned)"
proof -
  have len: "length (map (stack w) [0..<unat BUFFER_SIZE]) = 4096"
    by (simp add: unat_BUFFER_SIZE)
  show ?thesis
    unfolding display_data_def Let_def assms read_kernel_data_Content [OF len]
    by (simp add: c_str_terminated fetched_def decoration_def del: length_take upt_Suc)
qed

lemma display_data_OpenFails:
  assumes "proc_file w = OpenFails err"
  shows "display_data w raw =
     ([Open PROC_PATH,
       Stderr (COLOR_RED @ ''Error: Failed to open '' @ PROC_PATH @ '': '' @ err @ ''\<newline>'' @ COLOR_RESET),
       Stderr ''Make sure the kernel module is loaded (insmod kernel_monitor.ko)\<newline>''], Returned)"
  by (simp add: display_data_def Let_def assms read_kernel_data_def)

lemma display_data_ReadFails:
  assumes "proc_file w = ReadFails err"
  shows "display_data w raw =
     ([Open PROC_PATH, Read 4095,
       Stderr (COLOR_RED @ ''Error: Failed to read from '' @ PROC_PATH @ '': '' @ err @ ''\<newline>'' @ COLOR_RESET),
       Close], Returned)"
  by (simp add: display_data_def Let_def assms read_kernel_data_def unat_BUFFER_SIZE)

lemma display_data_returns: "snd (display_data w raw) = Returned"
  by (cases "proc_file w") (simp_all add: display_data_OpenFails display_data_ReadFails display_data_Content)

lemma display_data_one_open: "length (filter is_Open (fst (display_data w raw))) = 1"
  by (cases "proc_file w") (simp_all add: display_data_OpenFails display_data_ReadFails display_data_Content decoration_def)

lemma display_data_reads:
  "filter is_Read (fst (display_data w raw)) =
     (case proc_file w of OpenFails err \<Rightarrow> [] | ReadFails err \<Rightarrow> [Read 4095] | Content txt \<Rightarrow> [Read 4095])"
  by (cases "proc_file w") (simp_all add: display_data_OpenFails display_data_ReadFails display_data_Content decoration_def)

lemma watch_loop_trace:
  "watch_loop n w k interval =
     (concat (map (\<lambda>j. fst (display_data (w j) 0) @ [Sleep (unat interval)]) [k..<k + n]), Running)"
proof (induction n arbitrary: k)
  case 0
  show ?case by simp
next
  case (Suc n)
  obtain evs where d: "display_data (w k) 0 = (evs, Returned)"
    using display_data_returns [of "w k" 0] by (cases "display_data (w k) 0") simp
  have "[k..<k + Suc n] = k # [Suc k..<Suc k + n]"
    by (simp add: upt_rec)
  then show ?case
    by (simp add: d Suc.IH del: upt_Suc)
qed

lemma unat_positive_sint:
  fixes x :: s32
  assumes "0 < sint x"
  shows "unat x = nat (sint x)"
proof -
  have "sint x < 2 ^ 31" using sint_less [of x] by simp
  then have "sint x < 2 ^ 32" by simp
  with assms have "take_bit 32 (sint x) = sint x"
    by (simp add: take_bit_int_eq_self)
  then have "uint x = sint x" using uint_sint [of x] by simp
  then show ?thesis by (simp add: unat_eq_nat_uint)
qed

lemma atoi_examples: "sint (atoi ''0'') = 0" "sint (atoi ''-1'') = - 1" "sint (atoi ''abc'') = 0" "sint (atoi '' 42'') = 42"
  by (simp_all add: atoi_def strtol_def isspace_def isdigit_def)

lemma getopt_watch: "getopt_seq prog [] [''--watch'', a] = [Opt (CHR ''w'') a]"
  by (simp add: find_long_def long_options_def Let_def)

lemma getopt_w: "getopt_seq prog [] [''-w'', a] = [Opt (CHR ''w'') a]"
  by simp

lemma getopt_missing:
  "getopt_seq prog [] [''--watch''] =
     [Err (prog @ '': option '' @ quoted ''--watch'' @ '' requires an argument\<newline>'')]"
  "getopt_seq prog [] [''-w''] =
     [Err (prog @ '': option requires an argument -- '' @ quoted ''w'' @ ''\<newline>'')]"
  by (simp_all add: find_long_def long_options_def Let_def)

lemma getopt_unknown_long:
  assumes "name \<noteq> []" and "find_long (takeWhile (\<lambda>c. c \<noteq> CHR ''='') name) = Unknown"
  shows "getopt_seq prog [] ((''--'' @ name) # rest) =
     Err (prog @ '': unrecognized option '' @ quoted (''--'' @ name) @ ''\<newline>'') #
     getopt_seq prog [] rest"
  using assms by (simp add: Let_def)

lemma getopt_unknown_short:
  assumes "c \<notin> set ''hvrw-''"
  shows "getopt_seq prog [] ((CHR ''-'' # c # cs) # rest) =
     Err (prog @ '': invalid option -- '' @ quoted [c] @ ''\<newline>'') # getopt_seq prog cs rest"
  using assms by simp

lemma getopt_raw: "getopt_seq prog [] [''--raw''] = [Opt (CHR ''r'') []]"
  "getopt_seq prog [] [''-r''] = [Opt (CHR ''r'') []]"
  by (simp_all add: find_long_def long_options_def Let_def)

lemma getopt_examples:
  "getopt_seq ''app'' [] [''-rw5'', ''x'', ''--wat=3'', ''--help=1'', ''--'', ''-h''] =
     [Opt (CHR ''r'') [], Opt (CHR ''w'') ''5'', Opt (CHR ''w'') ''3'',
      Err (''app: option '' @ quoted ''--help'' @ '' doesn'' @ [CHR 0x27] @ ''t allow an argument\<newline>'')]"
  "getopt_seq ''app'' [] [''--=1''] =
     [Err (''app: option '' @ quoted ''--=1'' @ '' is ambiguous; possibilities: '' @
           quoted ''--help'' @ '' '' @ quoted ''--version'' @ '' '' @ quoted ''--raw'' @ '' '' @
           quoted ''--watch'' @ ''\<newline>'')]"
  by (simp_all add: find_long_def long_options_def Let_def)

lemma option_loop_append:
  "option_loop prog (pre @ rest) raw wi =
     (case option_loop prog pre raw wi of
        Inl out \<Rightarrow> Inl out
      | Inr (raw', wi') \<Rightarrow> option_loop prog rest raw' wi')"
  by (induction prog pre raw wi rule: option_loop.induct) (simp_all add: Let_def)

lemma fetched_short: "length text \<le> 4095 \<Longrightarrow> NUL \<notin> set text \<Longrightarrow> fetched text = text"
proof -
  assume "length text \<le> 4095" and "NUL \<notin> set text"
  moreover from this have "\<forall>c\<in>set text. c \<noteq> NUL" by auto
  ultimately show ?thesis by (simp add: fetched_def)
qed

lemma fetched_long: "NUL \<notin> set text \<Longrightarrow> fetched text = take 4095 text"
proof -
  assume "NUL \<notin> set text"
  then have "\<forall>c\<in>set (take 4095 text). c \<noteq> NUL" by (auto dest: in_set_takeD)
  then show ?thesis by (simp add: fetched_def del: length_take)
qed

lemma length_fetched: "length (fetched text) \<le> 4095"
proof -
  have "length (fetched text) \<le> length (take 4095 text)"
    unfolding fetched_def by (rule length_takeWhile_le)
  then show ?thesis by simp
qed

lemma main_raw:
  assumes "proc_file (w 0) = Content text"
  shows "main n w prog [''--raw''] = ([Open PROC_PATH, Read 4095, Close, Stdout (fetched text)], Exit 0)"
    and "main n w prog [''-r''] = ([Open PROC_PATH, Read 4095, Close, Stdout (fetched text)], Exit 0)"
  unfolding main_def getopt_raw
  by (simp_all add: display_data_Content [OF assms] EXIT_SUCCESS_def)

lemma main_default:
  assumes "proc_file (w 0) = Content text"
  shows "main n w prog [] =
    ([Open PROC_PATH, Read 4095, Close] @ decoration @ [Stdout (''\<newline>'' @ fetched text @ ''\<newline>'')], Exit 0)"
  unfolding main_def
  by (simp add: display_data_Content [OF assms] EXIT_SUCCESS_def)

lemma stdout_of_append: "stdout_of (xs @ ys) = stdout_of xs @ stdout_of ys"
  by (induction xs rule: stdout_of.induct) simp_all

lemma take_own_length: "take (length xs) (xs @ ys) = xs"
  by simp

subsection \<open>The length of a snapshot\<close>

lemma example_text_ok:
  "length (GenerateSnapshot (example_platform [bashd_task])) \<le> 4095"
  "NUL \<notin> set (GenerateSnapshot (example_platform [bashd_task]))"
  unfolding snapshot_bashd preamble_example
  by (simp_all add: NUL_def)

lemma length_ljust: "w \<le> length (ljust w s)"
  by (simp add: ljust_def)

lemma length_process_row: "42 \<le> length (process_row name p kb)"
proof -
  have "20 \<le> length (ljust 20 name)" "8 \<le> length (ljust 8 (fmt_d p))" "12 \<le> length (ljust 12 (fmt_lu kb))"
    by (rule length_ljust)+
  then show ?thesis by (simp add: process_row_def)
qed

lemma length_rows: "42 * length xs \<le> length (concat (map (\<lambda>(t, a). process_row (comm t) (pid t) (f t a)) xs))"
proof (induction xs)
  case Nil
  show ?case by simp
next
  case (Cons x xs)
  obtain t a where [simp]: "x = (t, a)" by (cases x)
  show ?case using Cons.IH length_process_row [of "comm t" "pid t" "f t a"] by simp
qed

lemma length_snapshot: "42 * length (visited_mm (tasks p)) \<le> length (GenerateSnapshot p)"
proof -
  have "42 * length (visited_mm (tasks p)) \<le> length (concat (table_rows p))"
    unfolding table_rows_def by (rule length_rows)
  then show ?thesis by (simp add: GenerateSnapshot_layout)
qed

lemma visited_mm_replicate: "visited_mm (replicate n bashd_task) = replicate n (bashd_task, 7)"
  by (induction n) (simp_all add: visited_mm_Nil visited_mm_Cons bashd_task_def)

lemma busy_long: "4095 < length (GenerateSnapshot busy_platform)"
proof -
  have "tasks busy_platform = replicate 100 bashd_task"
    by (simp add: busy_platform_def example_platform_def)
  then have "length (visited_mm (tasks busy_platform)) = 100"
    by (simp add: visited_mm_replicate)
  then show ?thesis using length_snapshot [of busy_platform] by simp
qed

lemma bashd_row:
  "process_row (comm bashd_task) (pid bashd_task) (2048 * 4) =
     ''bashd                1234     8192        \<newline>''"
  by (simp add: bashd_task_def render)

lemma preamble_busy:
  "preamble busy_platform =
     ''===========================================\<newline>'' @
     ''     Linux Kernel Monitor v1.0.0\<newline>'' @
     ''===========================================\<newline>'' @
     ''\<newline>'' @
     ''CPU Statistics (CPU 0):\<newline>'' @
     ''  User Time:   1000000000 ns\<newline>'' @
     ''  System Time: 500000000 ns\<newline>'' @
     ''  Idle Time:   8500000000 ns\<newline>'' @
     ''\<newline>'' @
     ''Memory Statistics:\<newline>'' @
     ''  Total RAM:   1048576 pages (4096 MB)\<newline>'' @
     ''  Free RAM:    262144 pages (1024 MB)\<newline>'' @
     ''  Shared RAM:  1024 pages\<newline>'' @
     ''  Buffer RAM:  2048 pages\<newline>'' @
     ''\<newline>'' @
     ''Process Information:\<newline>'' @
     ''Name                 PID      Memory (KB) \<newline>'' @
     ''-------------------------------------------\<newline>''"
  unfolding busy_platform_def by (rule preamble_example)

lemma busy_snapshot:
  "GenerateSnapshot busy_platform =
     preamble busy_platform @
     concat (replicate 100 ''bashd                1234     8192        \<newline>'') @
     ''\<newline>Total Processes: 100\<newline>''"
proof -
  have t: "tasks busy_platform = replicate 100 bashd_task"
    by (simp add: busy_platform_def example_platform_def)
  have m: "total_vm (memory busy_platform a) = 2048" for a
    by (simp add: busy_platform_def example_platform_def)
  have "table_rows busy_platform =
      map (\<lambda>(t, a). process_row (comm t) (pid t) (2048 * 4)) (replicate 100 (bashd_task, 7 :: nat))"
    by (simp only: table_rows_def t visited_mm_replicate m)
  then have r: "table_rows busy_platform =
      replicate 100 ''bashd                1234     8192        \<newline>''"
    by (simp only: map_replicate prod.case bashd_row)
  have "dec_nat (length (table_rows busy_platform) mod 2 ^ 64) = ''100''"
    unfolding r by (simp add: dec_nat_numeral dec_nat_0 dec_nat_1 digit_char_def)
  then show ?thesis
    unfolding GenerateSnapshot_layout [of busy_platform] r by simp
qed

lemma length_concat_replicate: "length (concat (replicate n xs)) = n * length xs"
  by (induction n) simp_all

lemma busy_length: "length (GenerateSnapshot busy_platform) = 4812"
proof -
  have "length (preamble busy_platform) = 490"
    unfolding preamble_busy by simp
  moreover have "length ''bashd                1234     8192        \<newline>'' = 43"
    by simp
  ultimately show ?thesis
    unfolding busy_snapshot length_append length_concat_replicate by simp
qed

lemma busy_no_NUL: "NUL \<notin> set (GenerateSnapshot busy_platform)"
  unfolding busy_snapshot preamble_busy
  by (simp add: NUL_def)

subsection \<open>A text that fits the buffer\<close>

text \<open>
  When the proc file serves a text of at most 4095 bytes without a NUL byte, \<^verbatim>\<open>--raw\<close>
  prints exactly that text and nothing else, and the default display prints the decoration
  with its banner, a newline, the text and a newline.
\<close>

lemma short_text_shown_whole:
  assumes c: "proc_file (w 0) = Content text" and l: "length text \<le> 4095" and z: "NUL \<notin> set text"
  shows "main n w prog [''--raw''] = ([Open PROC_PATH, Read 4095, Close, Stdout text], Exit 0) \<and>
         main n w prog [''-r''] = ([Open PROC_PATH, Read 4095, Close, Stdout text], Exit 0) \<and>
         stdout_of (fst (main n w prog [''--raw''])) = text \<and>
         stdout_of (fst (main n w prog [])) =
           stdout_of decoration @ ''\<newline>'' @ text @ ''\<newline>'' \<and>
         sublist text (stdout_of (fst (main n w prog []))) \<and>
         sublist (banner_top @ banner_mid @ banner_bottom) (stdout_of (fst (main n w prog [])))"
proof -
  have f: "fetched text = text" using l z by (rule fetched_short)
  have d: "stdout_of (fst (main n w prog [])) = stdout_of decoration @ ''\<newline>'' @ text @ ''\<newline>''"
    by (simp add: main_default [where w = w, OF c] f stdout_of_append)
  have s1: "sublist text (stdout_of (fst (main n w prog [])))"
    unfolding d by (rule sublist_mid [where ps = "stdout_of decoration @ ''\<newline>''"]) simp
  have s2: "sublist (banner_top @ banner_mid @ banner_bottom) (stdout_of (fst (main n w prog [])))"
    unfolding d by (rule sublist_mid [where ps = "(ESC # ''[2J'' @ ESC # ''[H'') @ COLOR_BOLD @ COLOR_BLUE"])
      (simp add: decoration_def)
  show ?thesis
    using d s1 s2 by (simp add: main_raw [where w = w, OF c] f)
qed

lemma short_text_example:
  "stdout_of (fst (main 1 (\<lambda>k. serving (GenerateSnapshot (example_platform [bashd_task]))) ''monitor_app'' [''--raw'']))
     = GenerateSnapshot (example_platform [bashd_task]) \<and>
   sublist (GenerateSnapshot (example_platform [bashd_task]))
     (stdout_of (fst (main 1 (\<lambda>k. serving (GenerateSnapshot (example_platform [bashd_task]))) ''monitor_app'' [])))"
proof -
  have h: "proc_file (serving (GenerateSnapshot (example_platform [bashd_task]))) =
      Content (GenerateSnapshot (example_platform [bashd_task]))"
    by (simp add: serving_def)
  from short_text_shown_whole [of "\<lambda>k. serving (GenerateSnapshot (example_platform [bashd_task]))"
      "GenerateSnapshot (example_platform [bashd_task])" 1 "''monitor_app''", OF h example_text_ok]
  show ?thesis by blast
qed

subsection \<open>The claims about the client\<close>

text \<open>
  C3, as the code has it. An interval argument that \<^verbatim>\<open>atoi\<close> reads as zero or less ends
  \<^verbatim>\<open>main\<close> with exit code 1 after the one line \<^verbatim>\<open>Error: Invalid watch interval\<close> on the
  error stream: nothing is opened, nothing is written to the output stream. The usage text
  is what the \<^verbatim>\<open>default\<close> label prints: whenever the options before it let the loop go on
  and \<^verbatim>\<open>getopt_long\<close> then reports an error, \<^verbatim>\<open>main\<close> ends with exit code 1 after that error
  line and the usage text. That is so for every unrecognized long or short option met
  first, and for \<^verbatim>\<open>--watch\<close> or \<^verbatim>\<open>-w\<close> without its interval.
\<close>

theorem invalid_interval_rejected:
  "(sint (atoi a) \<le> 0 \<longrightarrow>
      main n w prog [''--watch'', a] = ([Stderr ''Error: Invalid watch interval\<newline>''], Exit 1) \<and>
      main n w prog [''-w'', a] = ([Stderr ''Error: Invalid watch interval\<newline>''], Exit 1)) \<and>
   (getopt_seq prog [] args = pre @ Err msg # rest \<longrightarrow>
    option_loop prog pre 0 0 = Inr (r, i) \<longrightarrow>
      main n w prog args = (Stderr msg # print_usage prog, Exit 1)) \<and>
   (name \<noteq> [] \<longrightarrow> find_long (takeWhile (\<lambda>c. c \<noteq> CHR ''='') name) = Unknown \<longrightarrow>
      main n w prog ((''--'' @ name) # others) =
        (Stderr (prog @ '': unrecognized option '' @ quoted (''--'' @ name) @ ''\<newline>'') #
         print_usage prog, Exit 1)) \<and>
   (c \<notin> set ''hvrw-'' \<longrightarrow>
      main n w prog ((CHR ''-'' # c # cs) # others) =
        (Stderr (prog @ '': invalid option -- '' @ quoted [c] @ ''\<newline>'') #
         print_usage prog, Exit 1)) \<and>
   main n w prog [''--watch''] =
     (Stderr (prog @ '': option '' @ quoted ''--watch'' @ '' requires an argument\<newline>'') #
      print_usage prog, Exit 1) \<and>
   main n w prog [''-w''] =
     (Stderr (prog @ '': option requires an argument -- '' @ quoted ''w'' @ ''\<newline>'') #
      print_usage prog, Exit 1)"
proof -
  have A: "main n w prog [''--watch'', a] = ([Stderr ''Error: Invalid watch interval\<newline>''], Exit 1) \<and>
      main n w prog [''-w'', a] = ([Stderr ''Error: Invalid watch interval\<newline>''], Exit 1)"
    if "sint (atoi a) \<le> 0"
    unfolding main_def getopt_watch getopt_w
    using that by (simp add: EXIT_FAILURE_def Let_def)
  have B: "main n w prog args = (Stderr msg # print_usage prog, Exit 1)"
    if "getopt_seq prog [] args = pre @ Err msg # rest" and "option_loop prog pre 0 0 = Inr (r, i)"
    unfolding main_def that(1) option_loop_append
    by (simp add: that(2) EXIT_FAILURE_def)
  have C: "main n w prog ((''--'' @ name) # others) =
        (Stderr (prog @ '': unrecognized option '' @ quoted (''--'' @ name) @ ''\<newline>'') #
         print_usage prog, Exit 1)"
    if "name \<noteq> []" and "find_long (takeWhile (\<lambda>c. c \<noteq> CHR ''='') name) = Unknown"
    unfolding main_def getopt_unknown_long [OF that]
    by (simp add: EXIT_FAILURE_def)
  have D: "main n w prog ((CHR ''-'' # c # cs) # others) =
        (Stderr (prog @ '': invalid option -- '' @ quoted [c] @ ''\<newline>'') #
         print_usage prog, Exit 1)"
    if "c \<notin> set ''hvrw-''"
    unfolding main_def getopt_unknown_short [OF that]
    by (simp add: EXIT_FAILURE_def)
  have E: "main n w prog [''--watch''] =
     (Stderr (prog @ '': option '' @ quoted ''--watch'' @ '' requires an argument\<newline>'') #
      print_usage prog, Exit 1)"
    "main n w prog [''-w''] =
     (Stderr (prog @ '': option requires an argument -- '' @ quoted ''w'' @ ''\<newline>'') #
      print_usage prog, Exit 1)"
    unfolding main_def getopt_missing
    by (simp_all add: EXIT_FAILURE_def)
  show ?thesis
    using A B C D E by blast
qed

theorem invalid_interval_rejected_witness:
  "main 3 (\<lambda>k. absent_world) ''monitor_app'' [''--watch'', ''0''] = ([Stderr ''Error: Invalid watch interval\<newline>''], Exit 1) \<and>
   main 3 (\<lambda>k. absent_world) ''monitor_app'' [''--watch'', ''-1''] = ([Stderr ''Error: Invalid watch interval\<newline>''], Exit 1) \<and>
   main 3 (\<lambda>k. absent_world) ''monitor_app'' [''--watch'', ''abc''] = ([Stderr ''Error: Invalid watch interval\<newline>''], Exit 1) \<and>
   main 3 (\<lambda>k. absent_world) ''monitor_app'' [''--bogus'', ''--raw''] =
     (Stderr (''monitor_app: unrecognized option '' @ quoted ''--bogus'' @ ''\<newline>'') #
      print_usage ''monitor_app'', Exit 1) \<and>
   main 3 (\<lambda>k. absent_world) ''monitor_app'' [''-x''] =
     (Stderr (''monitor_app: invalid option -- '' @ quoted ''x'' @ ''\<newline>'') #
      print_usage ''monitor_app'', Exit 1) \<and>
   main 3 (\<lambda>k. absent_world) ''monitor_app'' [''-r'', ''--watch''] =
     (Stderr (''monitor_app: option '' @ quoted ''--watch'' @ '' requires an argument\<newline>'') #
      print_usage ''monitor_app'', Exit 1)"
proof -
  have g: "getopt_seq ''monitor_app'' [] [''-r'', ''--watch''] =
      [Opt (CHR ''r'') []] @
      Err (''monitor_app: option '' @ quoted ''--watch'' @ '' requires an argument\<newline>'') # []"
    by (simp add: find_long_def long_options_def Let_def)
  have l: "option_loop ''monitor_app'' [Opt (CHR ''r'') []] 0 0 = Inr (1, 0)"
    by simp
  have u: "find_long (takeWhile (\<lambda>c. c \<noteq> CHR ''='') ''bogus'') = Unknown"
    by (simp add: find_long_def long_options_def)
  show ?thesis
    using invalid_interval_rejected [where a = "''0''" and n = 3 and w = "\<lambda>k. absent_world"
        and prog = "''monitor_app''" and name = "''bogus''" and others = "[''--raw'']"
        and c = "CHR ''x''" and cs = "[]" and args = "[''-r'', ''--watch'']"
        and pre = "[Opt (CHR ''r'') []]" and rest = "[]" and r = 1 and i = 0
        and msg = "''monitor_app: option '' @ quoted ''--watch'' @ '' requires an argument\<newline>''"]
      invalid_interval_rejected [where a = "''-1''" and n = 3 and w = "\<lambda>k. absent_world"
        and prog = "''monitor_app''"]
      invalid_interval_rejected [where a = "''abc''" and n = 3 and w = "\<lambda>k. absent_world"
        and prog = "''monitor_app''"]
      g l u
    by (simp add: atoi_examples)
qed

text \<open>
  C3 as stated has the usage text printed before the exit. For \<^verbatim>\<open>--watch 0\<close> the whole
  trace is the error line, and the usage text is not part of it.
\<close>

theorem invalid_interval_prints_no_usage:
  "fst (main 3 (\<lambda>k. absent_world) ''monitor_app'' [''--watch'', ''0'']) = [Stderr ''Error: Invalid watch interval\<newline>''] \<and>
   \<not> sublist (print_usage ''monitor_app'') (fst (main 3 (\<lambda>k. absent_world) ''monitor_app'' [''--watch'', ''0'']))"
  unfolding main_def getopt_watch
  by (simp add: atoi_examples EXIT_FAILURE_def Let_def print_usage_def sublist_Cons_right)

text \<open>
  C6. When \<^verbatim>\<open>open\<close> or \<^verbatim>\<open>read\<close> fails, \<^verbatim>\<open>display_data\<close> returns to its caller, has
  written nothing to the output stream, and has written to the error stream a diagnostic
  that names the path and the cause.
\<close>

theorem failed_fetch_reports_and_returns:
  assumes "proc_file w = OpenFails err \<or> proc_file w = ReadFails err"
  shows "snd (display_data w raw) = Returned \<and>
         stdout_of (fst (display_data w raw)) = [] \<and>
         stderr_of (fst (display_data w raw)) \<noteq> [] \<and>
         sublist (PROC_PATH @ '': '' @ err) (stderr_of (fst (display_data w raw)))"
proof -
  from assms show ?thesis
  proof
    assume o: "proc_file w = OpenFails err"
    have "sublist (PROC_PATH @ '': '' @ err) (stderr_of (fst (display_data w raw)))"
      unfolding display_data_OpenFails [OF o]
      by (rule sublist_mid [where ps = "COLOR_RED @ ''Error: Failed to open ''"]) simp
    then show ?thesis by (simp add: display_data_OpenFails [OF o] COLOR_RED_def)
  next
    assume r: "proc_file w = ReadFails err"
    have "sublist (PROC_PATH @ '': '' @ err) (stderr_of (fst (display_data w raw)))"
      unfolding display_data_ReadFails [OF r]
      by (rule sublist_mid [where ps = "COLOR_RED @ ''Error: Failed to read from ''"]) simp
    then show ?thesis by (simp add: display_data_ReadFails [OF r] COLOR_RED_def)
  qed
qed

theorem failed_fetch_reports_and_returns_witness:
  "proc_file absent_world = OpenFails ''No such file or directory'' \<and>
   snd (display_data absent_world 0) = Returned \<and>
   stdout_of (fst (display_data absent_world 0)) = [] \<and>
   stderr_of (fst (display_data absent_world 0)) \<noteq> []"
  using failed_fetch_reports_and_returns [of absent_world "''No such file or directory''" 0]
  by (simp add: absent_world_def)

text \<open>
  C7. For a positive interval, \<^verbatim>\<open>watch_mode\<close> prints its banner, sleeps two seconds, and
  then, for as many iterations as one cares to follow, does a decorated fetch followed by a
  sleep of the interval; it is still running after any number of iterations, and after
  \<open>n\<close> iterations it has opened the proc file \<open>n\<close> times, whatever the fetches met.
\<close>

theorem watch_loop_never_ends:
  assumes "0 < sint interval"
  shows "watch_mode n w interval =
           ([Stdout (COLOR_GREEN @ ''Starting watch mode (updating every '' @
                     dec_int (sint interval) @ '' seconds)...\<newline>''),
             Stdout (''Press Ctrl+C to exit\<newline>'' @ COLOR_RESET),
             Sleep 2] @
            concat (map (\<lambda>k. fst (display_data (w k) 0) @ [Sleep (nat (sint interval))]) [0..<n]),
            Running) \<and>
         length (filter is_Open (fst (watch_mode n w interval))) = n \<and>
         snd (display_data (w k) 0) = Returned"
proof -
  have u: "unat interval = nat (sint interval)"
    using assms by (rule unat_positive_sint)
  have t: "watch_mode n w interval =
           (watch_banner interval @
            concat (map (\<lambda>k. fst (display_data (w k) 0) @ [Sleep (nat (sint interval))]) [0..<n]),
            Running)"
    by (simp add: watch_mode_def watch_loop_trace u)
  have b: "watch_banner interval =
           [Stdout (COLOR_GREEN @ ''Starting watch mode (updating every '' @
                     dec_int (sint interval) @ '' seconds)...\<newline>''),
             Stdout (''Press Ctrl+C to exit\<newline>'' @ COLOR_RESET),
             Sleep 2]"
    by (simp add: watch_banner_def fmt_d_def)
  have c: "length (filter is_Open (concat (map (\<lambda>k. fst (display_data (w k) 0) @ [Sleep s]) xs))) = length xs" for xs s
    by (induction xs) (simp_all add: display_data_one_open)
  have o: "length (filter is_Open (fst (watch_mode n w interval))) = n"
    by (simp add: t c) (simp add: watch_banner_def)
  show ?thesis
    using o display_data_returns [of "w k" 0] unfolding t b by simp
qed

theorem watch_loop_never_ends_witness:
  "0 < sint (5 :: s32) \<and>
   watch_mode 2 (\<lambda>k. absent_world) 5 =
     ([Stdout (COLOR_GREEN @ ''Starting watch mode (updating every 5 seconds)...\<newline>''),
       Stdout (''Press Ctrl+C to exit\<newline>'' @ COLOR_RESET),
       Sleep 2,
       Open PROC_PATH,
       Stderr (COLOR_RED @ ''Error: Failed to open '' @ PROC_PATH @ '': No such file or directory\<newline>'' @ COLOR_RESET),
       Stderr ''Make sure the kernel module is loaded (insmod kernel_monitor.ko)\<newline>'',
       Sleep 5,
       Open PROC_PATH,
       Stderr (COLOR_RED @ ''Error: Failed to open '' @ PROC_PATH @ '': No such file or directory\<newline>'' @ COLOR_RESET),
       Stderr ''Make sure the kernel module is loaded (insmod kernel_monitor.ko)\<newline>'',
       Sleep 5], Running)"
proof -
  have p: "proc_file absent_world = OpenFails ''No such file or directory''"
    by (simp add: absent_world_def)
  show ?thesis
    using watch_loop_never_ends [of 5 2 "\<lambda>k. absent_world"]
    by (simp add: display_data_OpenFails [OF p] upt_rec dec_int_def dec_nat_numeral digit_char_def)
qed

text \<open>
  C8. The claim fails on the code for a text that does not fit the buffer. The snapshot of
  a platform with a hundred processes has 4812 bytes; \<^verbatim>\<open>--raw\<close> reads once, prints the first
  4095 bytes of it and exits with code 0, so its output is not the provider's text.
\<close>

theorem raw_output_truncated:
  "length (GenerateSnapshot busy_platform) = 4812 \<and>
   main 1 (\<lambda>k. serving (GenerateSnapshot busy_platform)) ''monitor_app'' [''--raw''] =
     ([Open PROC_PATH, Read 4095, Close, Stdout (take 4095 (GenerateSnapshot busy_platform))],
      Exit 0) \<and>
   stdout_of (fst (main 1 (\<lambda>k. serving (GenerateSnapshot busy_platform)) ''monitor_app'' [''--raw'']))
     \<noteq> GenerateSnapshot busy_platform"
proof -
  let ?text = "GenerateSnapshot busy_platform"
  have len: "length ?text = 4812"
    by (rule busy_length)
  have "fetched ?text = take 4095 ?text"
    using busy_no_NUL by (rule fetched_long)
  then have run: "main 1 (\<lambda>k. serving ?text) ''monitor_app'' [''--raw''] =
     ([Open PROC_PATH, Read 4095, Close, Stdout (take 4095 ?text)], Exit 0)"
    by (simp add: main_raw [of _ ?text] serving_def)
  have "length (take 4095 ?text) \<noteq> length ?text"
    unfolding length_take len by simp
  then have "take 4095 ?text \<noteq> ?text"
    by metis
  then show ?thesis
    using len run by simp
qed

text \<open>
  C10. A fetch issues at most one \<^verbatim>\<open>read\<close>, for 4095 bytes; when the file serves a text,
  the terminator is stored at index \<open>min (length text) 4095\<close>, inside the 4096-byte
  buffer; and a text of more than 4095 bytes (without NUL) is shown cut to its first 4095
  bytes, raw and decorated alike.
\<close>

theorem single_read_within_buffer:
  "filter is_Read (fst (display_data w raw)) =
     (case proc_file w of OpenFails err \<Rightarrow> [] | ReadFails err \<Rightarrow> [Read 4095] | Content txt \<Rightarrow> [Read 4095]) \<and>
   (proc_file w = Content text \<longrightarrow>
      (\<exists>buffer. read_kernel_data (proc_file w) (map (stack w) [0..<unat BUFFER_SIZE]) BUFFER_SIZE =
                  (Some (buffer, int (min (length text) 4095)), [Open PROC_PATH, Read 4095, Close]) \<and>
                length buffer = 4096 \<and>
                min (length text) 4095 < length buffer \<and>
                buffer ! min (length text) 4095 = NUL \<and>
                take (min (length text) 4095) buffer = take 4095 text)) \<and>
   (proc_file w = Content text \<longrightarrow> 4095 < length text \<longrightarrow> NUL \<notin> set text \<longrightarrow>
      stdout_of (fst (display_data w 1)) = take 4095 text \<and>
      stdout_of (fst (display_data w 0)) =
        stdout_of decoration @ ''\<newline>'' @ take 4095 text @ ''\<newline>'' \<and>
      stderr_of (fst (display_data w raw)) = [])"
proof -
  have A: "filter is_Read (fst (display_data w raw)) =
     (case proc_file w of OpenFails err \<Rightarrow> [] | ReadFails err \<Rightarrow> [Read 4095] | Content txt \<Rightarrow> [Read 4095])"
    by (rule display_data_reads)
  have B: "\<exists>buffer. read_kernel_data (proc_file w) (map (stack w) [0..<unat BUFFER_SIZE]) BUFFER_SIZE =
                  (Some (buffer, int (min (length text) 4095)), [Open PROC_PATH, Read 4095, Close]) \<and>
                length buffer = 4096 \<and>
                min (length text) 4095 < length buffer \<and>
                buffer ! min (length text) 4095 = NUL \<and>
                take (min (length text) 4095) buffer = take 4095 text"
    if c: "proc_file w = Content text"
  proof -
    let ?buf = "map (stack w) [0..<unat BUFFER_SIZE]"
    let ?data = "take 4095 text"
    let ?res = "?data @ NUL # drop (Suc (length ?data)) ?buf"
    have len: "length ?buf = 4096" by (simp add: unat_BUFFER_SIZE)
    have n: "length ?data = min (length text) 4095" by simp
    have r: "read_kernel_data (proc_file w) ?buf BUFFER_SIZE =
       (Some (?res, int (min (length text) 4095)), [Open PROC_PATH, Read 4095, Close])"
      unfolding c read_kernel_data_Content [OF len] n ..
    have l: "length ?res = 4096" using len by (simp del: upt_Suc)
    have i: "?res ! length ?data = NUL" by (simp only: nth_append_length)
    have t: "take (length ?data) ?res = ?data" by (rule take_own_length)
    show ?thesis
      apply (rule exI [where x = ?res])
      using r l i t unfolding n by (simp del: upt_Suc)
  qed
  have C: "stdout_of (fst (display_data w 1)) = take 4095 text \<and>
      stdout_of (fst (display_data w 0)) =
        stdout_of decoration @ ''\<newline>'' @ take 4095 text @ ''\<newline>'' \<and>
      stderr_of (fst (display_data w raw)) = []"
    if c: "proc_file w = Content text" and "NUL \<notin> set text"
    using fetched_long [OF that(2)]
    by (simp add: display_data_Content [OF c] stdout_of_append) (simp add: decoration_def)
  show ?thesis using A B C by blast
qed

theorem single_read_within_buffer_witness:
  "proc_file (serving (replicate 5000 (CHR ''a''))) = Content (replicate 5000 (CHR ''a'')) \<and>
   4095 < length (replicate 5000 (CHR ''a'')) \<and>
   stdout_of (fst (display_data (serving (replicate 5000 (CHR ''a''))) 1)) = replicate 4095 (CHR ''a'') \<and>
   stdout_of (fst (display_data (serving (replicate 5000 (CHR ''a''))) 0)) =
        stdout_of decoration @ ''\<newline>'' @ replicate 4095 (CHR ''a'') @ ''\<newline>'' \<and>
   filter is_Read (fst (display_data (serving (replicate 5000 (CHR ''a''))) 0)) = [Read 4095]"
  using single_read_within_buffer [of "serving (replicate 5000 (CHR ''a''))" 0 "replicate 5000 (CHR ''a'')"]
  by (simp add: serving_def NUL_def)

end
